theory Spec2Isabelle
  imports Complex_Main
begin

section \<open>Cellular-automaton cell (living-wccell.js)\<close>

text \<open>
  The component's fields as a record. Neighbour counts, coordinates, age and generation are
  JavaScript numbers holding integers; \<open>_nextState\<close> is \<open>null\<close> or a boolean, hence an
  option. Every \<open>dispatchEvent\<close> of the component appends to the log \<open>cell_events\<close>.
\<close>

record CellRules =
  birth :: "int list"
  survival :: "int list"

datatype cell_event =
  StateChange bool bool int int int int string
  | GenerationUpdate int int int int bool int

record cell =
  alive :: bool
  cell_x :: int
  cell_y :: int
  generation :: int
  age :: int
  rules :: CellRules
  neighborCount :: int
  cellId :: string
  nextState :: "bool option"
  cell_events :: "cell_event list"

definition CONWAY_RULES :: CellRules where
  "CONWAY_RULES = \<lparr> birth = [3], survival = [2, 3] \<rparr>"

text \<open>\<open>Array.prototype.includes\<close> on an array of numbers.\<close>

definition array_includes :: "int list \<Rightarrow> int \<Rightarrow> bool" where
  "array_includes xs n = (n \<in> set xs)"

text \<open>\<open>_dispatchStateChange\<close>: the payload reads the fields after the change;
  \<open>previousAlive\<close> is \<open>!this.alive\<close>.\<close>

definition dispatchStateChange :: "cell \<Rightarrow> cell" where
  "dispatchStateChange c =
     c\<lparr>cell_events := cell_events c @
        [StateChange (alive c) (\<not> alive c) (cell_x c) (cell_y c) (age c) (generation c) (cellId c)]\<rparr>"

text \<open>\<open>calculateNextState(aliveNeighbors)\<close>: returns the new component state and the
  returned boolean.\<close>

definition calculateNextState :: "cell \<Rightarrow> int \<Rightarrow> cell \<times> bool" where
  "calculateNextState c aliveNeighbors =
     (let c1 = c\<lparr>neighborCount := aliveNeighbors\<rparr>;
          r = (if alive c1 then array_includes (survival (rules c1)) aliveNeighbors
               else array_includes (birth (rules c1)) aliveNeighbors);
          c2 = c1\<lparr>nextState := Some r\<rparr>
      in (c2, r))"

text \<open>\<open>applyNextState()\<close>.\<close>

definition applyNextState :: "cell \<Rightarrow> cell" where
  "applyNextState c =
     (case nextState c of
        None \<Rightarrow> c
      | Some ns \<Rightarrow>
          (let previousState = alive c;
               c1 = c\<lparr>alive := ns\<rparr>;
               c2 = (if alive c1
                     then (if previousState then c1\<lparr>age := age c1 + 1\<rparr> else c1\<lparr>age := 1\<rparr>)
                     else c1\<lparr>age := 0\<rparr>);
               c3 = c2\<lparr>nextState := None\<rparr>
           in if previousState \<noteq> alive c3 then dispatchStateChange c3 else c3))"

text \<open>The component as its constructor leaves it.\<close>

definition new_cell :: cell where
  "new_cell = \<lparr> alive = False, cell_x = 0, cell_y = 0, generation = 0, age = 0,
      rules = CONWAY_RULES, neighborCount = 0, cellId = [], nextState = None,
      cell_events = [] \<rparr>"

section \<open>Physics body (convgame-object.js)\<close>

text \<open>
  JavaScript numbers are modelled as reals: the operations are the source's, in the source's
  order, without the rounding, the infinities and the NaN of IEEE doubles. \<open>bounds\<close> is
  \<open>null\<close> or an object whose four properties may each be absent; an absent property is
  \<open>None\<close>. The component's \<open>dispatchEvent\<close> calls append to \<open>body_events\<close>.
\<close>

record Bounds =
  minX :: "real option"
  maxX :: "real option"
  minY :: "real option"
  maxY :: "real option"

datatype body_event =
  BoundaryHit string real real
  | PositionChange real real real real real real

record body =
  body_x :: real
  body_y :: real
  body_width :: real
  body_height :: real
  velocityX :: real
  velocityY :: real
  mass :: real
  friction :: real
  restitution :: real
  isStatic :: bool
  bounds :: "Bounds option"
  accelerationX :: real
  accelerationY :: real
  body_events :: "body_event list"

text \<open>\<open>getCenter()\<close>.\<close>

definition getCenter :: "body \<Rightarrow> real \<times> real" where
  "getCenter b = (body_x b + body_width b / 2, body_y b + body_height b / 2)"

text \<open>
  \<open>_checkBounds()\<close>. The destructuring defaults are \<open>minX = 0\<close>, \<open>minY = 0\<close> and
  \<open>maxX = maxY = Infinity\<close>; no position exceeds \<open>Infinity\<close>, so an absent upper bound
  never triggers. The function body is two \<open>if\<close>/\<open>else if\<close> statements, one per axis,
  that update the object and the single local variable \<open>hitBoundary\<close>, followed by one
  conditional dispatch. Each statement is a function of the object and of \<open>hitBoundary\<close>.
\<close>

definition checkBounds_horizontal :: "Bounds \<Rightarrow> body \<times> string option \<Rightarrow> body \<times> string option" where
  "checkBounds_horizontal bd st =
     (let b = fst st; hitBoundary = snd st;
          lo = (case minX bd of None \<Rightarrow> 0 | Some v \<Rightarrow> v)
      in if body_x b < lo
         then (b\<lparr>body_x := lo, velocityX := - velocityX b * restitution b\<rparr>, Some ''left'')
         else (case maxX bd of
                 None \<Rightarrow> (b, hitBoundary)
               | Some hi \<Rightarrow>
                   if body_x b + body_width b > hi
                   then (b\<lparr>body_x := hi - body_width b,
                            velocityX := - velocityX b * restitution b\<rparr>, Some ''right'')
                   else (b, hitBoundary)))"

definition checkBounds_vertical :: "Bounds \<Rightarrow> body \<times> string option \<Rightarrow> body \<times> string option" where
  "checkBounds_vertical bd st =
     (let b = fst st; hitBoundary = snd st;
          lo = (case minY bd of None \<Rightarrow> 0 | Some v \<Rightarrow> v)
      in if body_y b < lo
         then (b\<lparr>body_y := lo, velocityY := - velocityY b * restitution b\<rparr>, Some ''top'')
         else (case maxY bd of
                 None \<Rightarrow> (b, hitBoundary)
               | Some hi \<Rightarrow>
                   if body_y b + body_height b > hi
                   then (b\<lparr>body_y := hi - body_height b,
                            velocityY := - velocityY b * restitution b\<rparr>, Some ''bottom'')
                   else (b, hitBoundary)))"

definition checkBounds_dispatch :: "body \<times> string option \<Rightarrow> body" where
  "checkBounds_dispatch st =
     (case snd st of
        None \<Rightarrow> fst st
      | Some edge \<Rightarrow>
          (fst st)\<lparr>body_events := body_events (fst st) @
             [BoundaryHit edge (body_x (fst st)) (body_y (fst st))]\<rparr>)"

definition checkBounds :: "body \<Rightarrow> body" where
  "checkBounds b =
     (case bounds b of
        None \<Rightarrow> b
      | Some bd \<Rightarrow>
          checkBounds_dispatch (checkBounds_vertical bd (checkBounds_horizontal bd (b, None))))"








text \<open>\<open>applyForce(forceX, forceY)\<close> and \<open>applyImpulse(impulseX, impulseY)\<close>.\<close>

definition applyForce :: "body \<Rightarrow> real \<Rightarrow> real \<Rightarrow> body" where
  "applyForce b forceX forceY =
     (if isStatic b then b
      else b\<lparr>accelerationX := accelerationX b + forceX / mass b,
              accelerationY := accelerationY b + forceY / mass b\<rparr>)"

definition applyImpulse :: "body \<Rightarrow> real \<Rightarrow> real \<Rightarrow> body" where
  "applyImpulse b impulseX impulseY =
     (if isStatic b then b
      else b\<lparr>velocityX := velocityX b + impulseX / mass b,
              velocityY := velocityY b + impulseY / mass b\<rparr>)"

text \<open>
  \<open>resolveCollision(other)\<close> mutates both objects; the model returns the pair
  (this, other). When \<open>other\<close> is the receiver itself the two centres coincide and the
  source returns before writing, so the pair describes that call too.
\<close>

definition resolveCollision :: "body \<Rightarrow> body \<Rightarrow> body \<times> body" where
  "resolveCollision this other =
     (if isStatic this \<and> isStatic other then (this, other)
      else
        (let thisCenter = getCenter this;
             otherCenter = getCenter other;
             dx = fst otherCenter - fst thisCenter;
             dy = snd otherCenter - snd thisCenter;
             distance = sqrt (dx * dx + dy * dy)
         in if distance = 0 then (this, other)
            else
              (let nx = dx / distance;
                   ny = dy / distance;
                   dvx = velocityX this - velocityX other;
                   dvy = velocityY this - velocityY other;
                   dvn = dvx * nx + dvy * ny
               in if dvn > 0 then (this, other)
                  else
                    (let e = min (restitution this) (restitution other);
                         totalMass = (if isStatic this then mass other
                                      else if isStatic other then mass this
                                      else mass this + mass other);
                         impulse = - (1 + e) * dvn / totalMass;
                         this' = (if \<not> isStatic this
                                  then this\<lparr>velocityX := velocityX this - impulse * mass other * nx,
                                           velocityY := velocityY this - impulse * mass other * ny\<rparr>
                                  else this);
                         other' = (if \<not> isStatic other
                                   then other\<lparr>velocityX := velocityX other + impulse * mass this * nx,
                                             velocityY := velocityY other + impulse * mass this * ny\<rparr>
                                   else other)
                     in (this', other')))))"

text \<open>The component as its constructor leaves it.\<close>

definition new_body :: body where
  "new_body = \<lparr> body_x = 0, body_y = 0, body_width = 50, body_height = 50,
      velocityX = 0, velocityY = 0, mass = 1, friction = 98 / 100, restitution = 8 / 10,
      isStatic = False, bounds = None, accelerationX = 0, accelerationY = 0,
      body_events = [] \<rparr>"











subsection \<open>Bodies used as concrete inputs\<close>






text \<open>
  Two overlapping bodies of different sizes, of masses 1 and 2: a 50 by 50 box at the
  origin, centre \<open>(25, 25)\<close>, and a 30 by 90 box at \<open>(40, 20)\<close>, centre \<open>(55, 65)\<close>, at
  rest; the centres are 50 apart. \<open>ball_a\<close> moves with velocity \<open>(-5, 0)\<close>, away from
  the second body; \<open>ball_c\<close> is the same box moving with velocity \<open>(5, 0)\<close>, towards it.
\<close>

definition ball_a :: body where
  "ball_a = new_body\<lparr>velocityX := - 5, mass := 1\<rparr>"

definition ball_c :: body where
  "ball_c = new_body\<lparr>velocityX := 5, mass := 1\<rparr>"

definition ball_b :: body where
  "ball_b = new_body\<lparr>body_x := 40, body_y := 20, body_width := 30, body_height := 90,
      mass := 2\<rparr>"

section \<open>Tetris engine (game-tetris.js)\<close>

subsection \<open>JavaScript values, numbers and arrays\<close>

text \<open>
  The values stored in the cells of the board (\<open>null\<close> or a colour string) and of a shape
  (the numbers 0 and 1), and \<open>undefined\<close>, which reading an array outside its length gives.
  \<open>truthy\<close> is the conversion to boolean that \<open>if (v)\<close> performs on them.
\<close>

datatype jsval = Undefined | Null | NumV int | StrV string

fun truthy :: "jsval \<Rightarrow> bool" where
  "truthy Undefined = False"
| "truthy Null = False"
| "truthy (NumV n) = (n \<noteq> 0)"
| "truthy (StrV s) = (s \<noteq> [])"

type_synonym matrix = "jsval list list"

text \<open>
  The score is a JavaScript number. It holds an integer unless an \<open>undefined\<close> entered an
  arithmetic operation, which gives \<open>NaN\<close>; every operation on \<open>NaN\<close> gives \<open>NaN\<close>.
\<close>

datatype jsnum = Num int | NaN

fun jsadd :: "jsnum \<Rightarrow> jsnum \<Rightarrow> jsnum" where
  "jsadd (Num a) (Num b) = Num (a + b)"
| "jsadd _ _ = NaN"

text \<open>
  What the source can throw: reading a property of \<open>undefined\<close> or \<open>null\<close> is a
  \<open>TypeError\<close>, \<open>Array(n)\<close> with negative \<open>n\<close> is a \<open>RangeError\<close>. A method that
  can throw returns \<open>error + result\<close>; a call that throws is represented by its error
  alone, without the fields it had written before.
\<close>

datatype error = TypeError | RangeError

text \<open>\<open>xs[i]\<close> on an array of values, and \<open>b[i]\<close> on an array of rows (\<open>None\<close> is
  \<open>undefined\<close>).\<close>

definition elem_at :: "jsval list \<Rightarrow> int \<Rightarrow> jsval" where
  "elem_at xs i = (if 0 \<le> i \<and> i < int (length xs) then xs ! nat i else Undefined)"

definition row_at :: "matrix \<Rightarrow> int \<Rightarrow> jsval list option" where
  "row_at b i = (if 0 \<le> i \<and> i < int (length b) then Some (b ! nat i) else None)"

text \<open>\<open>xs[i] = v\<close> for \<open>i \<ge> 0\<close>: beyond the length the array is extended, and the
  elements skipped read as \<open>undefined\<close>.\<close>

definition set_at :: "jsval list \<Rightarrow> nat \<Rightarrow> jsval \<Rightarrow> jsval list" where
  "set_at xs i v =
     (if i < length xs then xs[i := v] else xs @ replicate (i - length xs) Undefined @ [v])"

subsection \<open>Pieces, events and the component state\<close>

datatype tetromino = Key_I | Key_O | Key_T | Key_S | Key_Z | Key_J | Key_L

record piece =
  ptype :: string
  shape :: matrix
  color :: string

datatype game_event =
  GameStart int int
  | GameOver jsnum int int
  | LineClear int int jsnum
  | ScoreUpdate jsnum jsnum jsnum
  | LevelUp int int int
  | PieceLock string int int

text \<open>
  The fields of the component that the game logic reads and writes. \<open>gameLoop\<close> is the
  handle of the running interval timer, modelled by its period, or \<open>None\<close> for \<open>null\<close>.
  The rendering fields (\<open>cellSize\<close>, \<open>showGhost\<close>, \<open>showGrid\<close>, the two canvas contexts)
  and the rendering methods (\<open>_render\<close>, \<open>_renderPreview\<close>, \<open>_drawCell\<close>, \<open>_getGhostY\<close>)
  are left out: they read the state and draw, and write no field below. Every
  \<open>_dispatchEvent\<close> appends to \<open>events\<close>.
\<close>

record game =
  width :: int
  height :: int
  speed :: int
  score :: jsnum
  level :: int
  lines :: int
  paused :: bool
  gameOver :: bool
  gameStarted :: bool
  board :: matrix
  currentPiece :: "piece option"
  currentX :: int
  currentY :: int
  nextPiece :: "piece option"
  gameLoop :: "int option"
  linesForNextLevel :: int
  events :: "game_event list"

subsection \<open>The tetromino table and the random piece\<close>

definition cells :: "int list list \<Rightarrow> matrix" where
  "cells rows = map (map NumV) rows"

fun TETROMINOES :: "tetromino \<Rightarrow> matrix \<times> string" where
  "TETROMINOES Key_I =
     (cells [[0, 0, 0, 0], [1, 1, 1, 1], [0, 0, 0, 0], [0, 0, 0, 0]], ''#00f0f0'')"
| "TETROMINOES Key_O = (cells [[1, 1], [1, 1]], ''#f0f000'')"
| "TETROMINOES Key_T = (cells [[0, 1, 0], [1, 1, 1], [0, 0, 0]], ''#a000f0'')"
| "TETROMINOES Key_S = (cells [[0, 1, 1], [1, 1, 0], [0, 0, 0]], ''#00f000'')"
| "TETROMINOES Key_Z = (cells [[1, 1, 0], [0, 1, 1], [0, 0, 0]], ''#f00000'')"
| "TETROMINOES Key_J = (cells [[1, 0, 0], [1, 1, 1], [0, 0, 0]], ''#0000f0'')"
| "TETROMINOES Key_L = (cells [[0, 0, 1], [1, 1, 1], [0, 0, 0]], ''#f0a000'')"

fun key_name :: "tetromino \<Rightarrow> string" where
  "key_name Key_I = ''I''"
| "key_name Key_O = ''O''"
| "key_name Key_T = ''T''"
| "key_name Key_S = ''S''"
| "key_name Key_Z = ''Z''"
| "key_name Key_J = ''J''"
| "key_name Key_L = ''L''"

text \<open>
  \<open>_getRandomPiece()\<close>. The key drawn by \<open>Math.floor(Math.random() * 7)\<close> is an argument.
  The shape is copied row by row, so no piece shares its shape with the table or with
  another piece.
\<close>

definition getRandomPiece :: "tetromino \<Rightarrow> piece" where
  "getRandomPiece key =
     \<lparr> ptype = key_name key, shape = fst (TETROMINOES key), color = snd (TETROMINOES key) \<rparr>"

subsection \<open>Board, timer and score\<close>

text \<open>\<open>_initBoard()\<close>: \<open>height\<close> rows of \<open>width\<close> \<open>null\<close>s (none when the bound is not
  positive).\<close>

definition initBoard :: "game \<Rightarrow> game" where
  "initBoard g = g\<lparr>board := replicate (nat (height g)) (replicate (nat (width g)) Null)\<rparr>"

definition getCurrentSpeed :: "game \<Rightarrow> int" where
  "getCurrentSpeed g = max 100 (speed g - (level g - 1) * 80)"

definition stopGameLoop :: "game \<Rightarrow> game" where
  "stopGameLoop g = (if gameLoop g \<noteq> None then g\<lparr>gameLoop := None\<rparr> else g)"

definition startGameLoop :: "game \<Rightarrow> game" where
  "startGameLoop g = (stopGameLoop g)\<lparr>gameLoop := Some (getCurrentSpeed (stopGameLoop g))\<rparr>"

text \<open>\<open>_addScore(points)\<close>.\<close>

definition addScore :: "game \<Rightarrow> jsnum \<Rightarrow> game" where
  "addScore g points =
     g\<lparr>score := jsadd (score g) points,
       events := events g @ [ScoreUpdate (jsadd (score g) points) (score g) points]\<rparr>"

text \<open>\<open>_levelUp()\<close> and \<open>_endGame()\<close>.\<close>

definition levelUp :: "game \<Rightarrow> game" where
  "levelUp g =
     (let g1 = startGameLoop (g\<lparr>level := level g + 1,
                                linesForNextLevel := linesForNextLevel g + 10\<rparr>)
      in g1\<lparr>events := events g1 @ [LevelUp (level g1) (getCurrentSpeed g1) (lines g1)]\<rparr>)"

definition endGame :: "game \<Rightarrow> game" where
  "endGame g =
     (let g1 = stopGameLoop (g\<lparr>gameOver := True\<rparr>)
      in g1\<lparr>events := events g1 @ [GameOver (score g1) (level g1) (lines g1)]\<rparr>)"

subsection \<open>Validity of a position\<close>

text \<open>
  \<open>_isValidPosition(shape, x, y)\<close>. The two nested loops visit the cells of the shape row
  by row and act on the truthy ones only; \<open>occupied\<close> lists those in the order visited.
  \<open>check_cell\<close> is the body of the inner \<open>if\<close>: \<open>Inr False\<close> is \<open>return false\<close>,
  \<open>Inr True\<close> falls through to the next cell. The board row is read only when
  \<open>newY >= 0\<close>, after the boundary test.
\<close>

definition occupied :: "matrix \<Rightarrow> (nat \<times> nat) list" where
  "occupied sh =
     concat (map (\<lambda>row. map (\<lambda>col. (row, col))
                           (filter (\<lambda>col. truthy (sh ! row ! col)) [0..<length (sh ! row)]))
                 [0..<length sh])"

definition check_cell :: "game \<Rightarrow> int \<Rightarrow> int \<Rightarrow> error + bool" where
  "check_cell g newX newY =
     (if newX < 0 \<or> newX \<ge> width g \<or> newY \<ge> height g then Inr False
      else if newY \<ge> 0
      then (case row_at (board g) newY of
              None \<Rightarrow> Inl TypeError
            | Some r \<Rightarrow> if truthy (elem_at r newX) then Inr False else Inr True)
      else Inr True)"

fun valid_cells :: "game \<Rightarrow> int \<Rightarrow> int \<Rightarrow> (nat \<times> nat) list \<Rightarrow> error + bool" where
  "valid_cells g x y [] = Inr True"
| "valid_cells g x y ((row, col) # rest) =
     (case check_cell g (x + int col) (y + int row) of
        Inl e \<Rightarrow> Inl e
      | Inr False \<Rightarrow> Inr False
      | Inr True \<Rightarrow> valid_cells g x y rest)"

definition isValidPosition :: "game \<Rightarrow> matrix \<Rightarrow> int \<Rightarrow> int \<Rightarrow> error + bool" where
  "isValidPosition g sh x y = valid_cells g x y (occupied sh)"

subsection \<open>Moves and rotation\<close>

text \<open>
  \<open>_moveDown()\<close> returns whether the piece moved; \<open>_moveLeft()\<close> and \<open>_moveRight()\<close>
  return nothing. Reading \<open>this._currentPiece.shape\<close> throws when there is no piece.
\<close>

definition moveDown :: "game \<Rightarrow> error + game \<times> bool" where
  "moveDown g =
     (case currentPiece g of
        None \<Rightarrow> Inl TypeError
      | Some p \<Rightarrow>
          (case isValidPosition g (shape p) (currentX g) (currentY g + 1) of
             Inl e \<Rightarrow> Inl e
           | Inr True \<Rightarrow> Inr (g\<lparr>currentY := currentY g + 1\<rparr>, True)
           | Inr False \<Rightarrow> Inr (g, False)))"



text \<open>
  \<open>_rotateMatrix(matrix)\<close>. \<open>matrix[0].length\<close> throws on an empty matrix. Row \<open>col\<close> of
  the result is filled at the indices \<open>rows - 1 - row\<close> for \<open>row\<close> from \<open>rows - 1\<close> down
  to 0, that is at 0, 1, ... in this order, with \<open>matrix[row][col]\<close>.
\<close>

definition rotateMatrix :: "matrix \<Rightarrow> error + matrix" where
  "rotateMatrix m =
     (case m of
        [] \<Rightarrow> Inl TypeError
      | first # _ \<Rightarrow>
          Inr (map (\<lambda>col. map (\<lambda>k. elem_at (m ! (length m - 1 - k)) (int col)) [0..<length m])
                   [0..<length first]))"

text \<open>
  \<open>_rotate()\<close>. \<open>try_kicks\<close> is the \<open>for (const kick of kicks)\<close> loop, which returns at
  the first kick that validates; when the loop ends nothing has been written.
\<close>

fun try_kicks :: "game \<Rightarrow> piece \<Rightarrow> matrix \<Rightarrow> int list \<Rightarrow> error + game" where
  "try_kicks g p rotated [] = Inr g"
| "try_kicks g p rotated (kick # kicks) =
     (case isValidPosition g rotated (currentX g + kick) (currentY g) of
        Inl e \<Rightarrow> Inl e
      | Inr True \<Rightarrow>
          Inr (g\<lparr>currentPiece := Some (p\<lparr>shape := rotated\<rparr>), currentX := currentX g + kick\<rparr>)
      | Inr False \<Rightarrow> try_kicks g p rotated kicks)"

definition rotate :: "game \<Rightarrow> error + game" where
  "rotate g =
     (case currentPiece g of
        None \<Rightarrow> Inl TypeError
      | Some p \<Rightarrow>
          (case rotateMatrix (shape p) of
             Inl e \<Rightarrow> Inl e
           | Inr rotated \<Rightarrow>
               (case isValidPosition g rotated (currentX g) (currentY g) of
                  Inl e \<Rightarrow> Inl e
                | Inr True \<Rightarrow> Inr (g\<lparr>currentPiece := Some (p\<lparr>shape := rotated\<rparr>)\<rparr>)
                | Inr False \<Rightarrow> try_kicks g p rotated [- 1, 1, - 2, 2])))"

subsection \<open>Locking and line clearing\<close>

text \<open>
  \<open>_lockPiece()\<close>. \<open>write_cell\<close> is \<open>this._board[y][x] = color\<close> for \<open>y, x \<ge> 0\<close>: it
  throws when the board has no row \<open>y\<close>. \<open>lock_cells\<close> is the double loop over the truthy
  cells of the shape.
\<close>

definition write_cell :: "matrix \<Rightarrow> int \<Rightarrow> int \<Rightarrow> jsval \<Rightarrow> error + matrix" where
  "write_cell b y x v =
     (case row_at b y of
        None \<Rightarrow> Inl TypeError
      | Some r \<Rightarrow> Inr (b[nat y := set_at r (nat x) v]))"

fun lock_cells :: "game \<Rightarrow> piece \<Rightarrow> (nat \<times> nat) list \<Rightarrow> error + game" where
  "lock_cells g p [] = Inr g"
| "lock_cells g p ((row, col) # rest) =
     (let y = currentY g + int row; x = currentX g + int col
      in if y \<ge> 0 \<and> y < height g \<and> x \<ge> 0 \<and> x < width g
         then (case write_cell (board g) y x (StrV (color p)) of
                 Inl e \<Rightarrow> Inl e
               | Inr b \<Rightarrow> lock_cells (g\<lparr>board := b\<rparr>) p rest)
         else lock_cells g p rest)"

definition lockPiece :: "game \<Rightarrow> error + game" where
  "lockPiece g =
     (case currentPiece g of
        None \<Rightarrow> Inl TypeError
      | Some p \<Rightarrow>
          (case lock_cells g p (occupied (shape p)) of
             Inl e \<Rightarrow> Inl e
           | Inr g1 \<Rightarrow>
               Inr (g1\<lparr>events := events g1 @
                          [PieceLock (ptype p) (currentX g1) (currentY g1)]\<rparr>)))"

text \<open>
  \<open>_clearLines()\<close>. \<open>row_full\<close> is \<open>row.every(cell => cell !== null)\<close>. \<open>collect_full\<close>
  is the first loop, run over \<open>y = height - 1, ..., 0\<close>; it throws when the board has no
  row \<open>y\<close>. \<open>remove_lines\<close> is the second loop: for each collected index, in the order
  collected, \<open>splice(lineY, 1)\<close> and then \<open>unshift\<close> of a new row of \<open>width\<close> \<open>null\<close>s
  (\<open>Array(width)\<close> throws for a negative width). \<open>lineScores[n]\<close> is \<open>undefined\<close> beyond
  index 4, and \<open>undefined * level\<close> is \<open>NaN\<close>.
\<close>

definition row_full :: "jsval list \<Rightarrow> bool" where
  "row_full r = list_all (\<lambda>cell. cell \<noteq> Null) r"

fun collect_full :: "matrix \<Rightarrow> nat list \<Rightarrow> error + nat list" where
  "collect_full b [] = Inr []"
| "collect_full b (y # ys) =
     (case row_at b (int y) of
        None \<Rightarrow> Inl TypeError
      | Some r \<Rightarrow>
          (case collect_full b ys of
             Inl e \<Rightarrow> Inl e
           | Inr rest \<Rightarrow> Inr (if row_full r then y # rest else rest)))"

definition splice1 :: "matrix \<Rightarrow> nat \<Rightarrow> matrix" where
  "splice1 b i = take i b @ drop (Suc i) b"

fun remove_lines :: "int \<Rightarrow> matrix \<Rightarrow> nat list \<Rightarrow> error + matrix" where
  "remove_lines w b [] = Inr b"
| "remove_lines w b (lineY # rest) =
     (if w < 0 then Inl RangeError
      else remove_lines w (replicate (nat w) Null # splice1 b lineY) rest)"

definition lineScores :: "int list" where
  "lineScores = [0, 100, 300, 500, 800]"

definition line_points :: "nat \<Rightarrow> int \<Rightarrow> jsnum" where
  "line_points n lv = (if n < length lineScores then Num (lineScores ! n * lv) else NaN)"

definition after_clear :: "game \<Rightarrow> nat \<Rightarrow> game" where
  "after_clear g n =
     (let g1 = addScore g (line_points n (level g));
          g2 = g1\<lparr>lines := lines g1 + int n\<rparr>;
          g3 = g2\<lparr>events := events g2 @ [LineClear (int n) (lines g2) (score g2)]\<rparr>
      in if lines g3 \<ge> linesForNextLevel g3 then levelUp g3 else g3)"

definition clearLines :: "game \<Rightarrow> error + game" where
  "clearLines g =
     (case collect_full (board g) (rev [0..<nat (height g)]) of
        Inl e \<Rightarrow> Inl e
      | Inr linesToClear \<Rightarrow>
          if linesToClear = [] then Inr g
          else (case remove_lines (width g) (board g) linesToClear of
                  Inl e \<Rightarrow> Inl e
                | Inr b \<Rightarrow> Inr (after_clear (g\<lparr>board := b\<rparr>) (length linesToClear))))"

subsection \<open>Spawning, dropping and the timer tick\<close>

text \<open>
  \<open>_spawnPiece()\<close>, with the key of the new next piece as argument. The piece taken
  from \<open>_nextPiece\<close> is a different object from the new next piece. Reading
  \<open>this._currentPiece.shape[0].length\<close> throws when there is no piece or its shape has
  no row. \<open>Math.floor\<close> of a half is \<open>div 2\<close> on the integers.
\<close>

definition spawnPiece :: "game \<Rightarrow> tetromino \<Rightarrow> error + game" where
  "spawnPiece g key =
     (case nextPiece g of
        None \<Rightarrow> Inl TypeError
      | Some p \<Rightarrow>
          (case shape p of
             [] \<Rightarrow> Inl TypeError
           | first # _ \<Rightarrow>
               (let g1 = g\<lparr>currentPiece := Some p, nextPiece := Some (getRandomPiece key),
                           currentX := (width g - int (length first)) div 2, currentY := 0\<rparr>
                in (case isValidPosition g1 (shape p) (currentX g1) (currentY g1) of
                      Inl e \<Rightarrow> Inl e
                    | Inr True \<Rightarrow> Inr g1
                    | Inr False \<Rightarrow> Inr (endGame g1)))))"

text \<open>The three calls \<open>_lockPiece(); _clearLines(); _spawnPiece();\<close> that end a tick and
  a hard drop.\<close>

definition lock_clear_spawn :: "game \<Rightarrow> tetromino \<Rightarrow> error + game" where
  "lock_clear_spawn g key =
     (case lockPiece g of
        Inl e \<Rightarrow> Inl e
      | Inr g1 \<Rightarrow>
          (case clearLines g1 of
             Inl e \<Rightarrow> Inl e
           | Inr g2 \<Rightarrow> spawnPiece g2 key))"




text \<open>\<open>_tick()\<close>, the timer callback.\<close>

definition tick :: "game \<Rightarrow> tetromino \<Rightarrow> error + game" where
  "tick g key =
     (if paused g \<or> gameOver g then Inr g
      else (case moveDown g of
              Inl e \<Rightarrow> Inl e
            | Inr (g1, moved) \<Rightarrow> if moved then Inr g1 else lock_clear_spawn g1 key))"

text \<open>A run of timer ticks, each with the key it would draw.\<close>

fun ticks :: "game \<Rightarrow> tetromino list \<Rightarrow> error + game" where
  "ticks g [] = Inr g"
| "ticks g (key # keys) =
     (case tick g key of Inl e \<Rightarrow> Inl e | Inr g1 \<Rightarrow> ticks g1 keys)"

subsection \<open>Start, pause and the keyboard\<close>

text \<open>\<open>startGame()\<close> draws two keys: one for the first next piece, one in \<open>_spawnPiece\<close>.\<close>

definition startGame :: "game \<Rightarrow> tetromino \<Rightarrow> tetromino \<Rightarrow> error + game" where
  "startGame g key1 key2 =
     (case spawnPiece
             ((initBoard g)\<lparr>score := Num 0, level := 1, lines := 0, gameOver := False,
                paused := False, gameStarted := True, linesForNextLevel := 10,
                nextPiece := Some (getRandomPiece key1)\<rparr>) key2 of
        Inl e \<Rightarrow> Inl e
      | Inr g1 \<Rightarrow>
          Inr ((startGameLoop g1)\<lparr>events := events (startGameLoop g1) @
                 [GameStart (level (startGameLoop g1)) (getCurrentSpeed (startGameLoop g1))]\<rparr>))"




text \<open>The board has a row for every index below \<open>height\<close>: what \<open>_initBoard\<close>
  establishes, and what keeps every board read of the game logic in range.\<close>

definition board_has_rows :: "game \<Rightarrow> bool" where
  "board_has_rows g = (height g \<le> int (length (board g)))"

text \<open>The component as its constructor leaves it, before \<open>firstUpdated\<close> builds the
  board.\<close>

definition new_game :: game where
  "new_game = \<lparr> width = 10, height = 20, speed = 1000, score = Num 0, level = 1, lines = 0,
      paused = False, gameOver = False, gameStarted = False, board = [],
      currentPiece = None, currentX = 0, currentY = 0, nextPiece = None, gameLoop = None,
      linesForNextLevel = 10, events = [] \<rparr>"

subsection \<open>Games used as concrete inputs\<close>

text \<open>Rows of the default board of ten columns: empty, completely filled, and with one
  filled cell.\<close>

definition empty_row :: "jsval list" where
  "empty_row = replicate 10 Null"

definition full_row :: "jsval list" where
  "full_row = replicate 10 (StrV ''#f0f000'')"

definition partial_row :: "jsval list" where
  "partial_row = StrV ''#a000f0'' # replicate 9 Null"

text \<open>A started game on the default board (10 by 20, empty) with the O piece next.\<close>

definition started_game :: game where
  "started_game = new_game\<lparr>gameStarted := True, board := replicate 20 empty_row,
     nextPiece := Some (getRandomPiece Key_O), gameLoop := Some 1000\<rparr>"

text \<open>The default board whose two bottom rows are full and whose row above them holds
  one block.\<close>

definition two_full_game :: game where
  "two_full_game = started_game\<lparr>
     board := replicate 17 empty_row @ [partial_row, full_row, full_row]\<rparr>"

text \<open>The I piece standing upright, and lying flat as its rotation leaves it.\<close>

definition I_upright :: piece where
  "I_upright = \<lparr> ptype = ''I'',
     shape = cells [[0, 0, 1, 0], [0, 0, 1, 0], [0, 0, 1, 0], [0, 0, 1, 0]],
     color = ''#00f0f0'' \<rparr>"

definition I_flat :: matrix where
  "I_flat = cells [[0, 0, 0, 0], [0, 0, 0, 0], [1, 1, 1, 1], [0, 0, 0, 0]]"

text \<open>The upright I piece in the leftmost column of the empty board, rows 5 to 8.\<close>

definition kick_game :: game where
  "kick_game = started_game\<lparr>currentPiece := Some I_upright, currentX := - 2, currentY := 5\<rparr>"

text \<open>The same, with row 7 of the board filled from column 1 on, so that the flat piece
  fits nowhere.\<close>

definition blocked_game :: game where
  "blocked_game = kick_game\<lparr>
     board := replicate 7 empty_row @ [Null # replicate 9 (StrV ''#f00000'')] @
              replicate 12 empty_row\<rparr>"

text \<open>A stack that reaches the top of the board in column 4, in a game at level 2.\<close>

definition tower_row :: "jsval list" where
  "tower_row = replicate 4 Null @ [StrV ''#00f0f0''] @ replicate 5 Null"

definition tower_game :: game where
  "tower_game = started_game\<lparr>board := replicate 20 tower_row, score := Num 1200,
     level := 2, lines := 13, linesForNextLevel := 20, gameLoop := Some 920\<rparr>"





text \<open>The component with the \<open>width\<close> attribute set to 2, before any game.\<close>

definition narrow_game :: game where
  "narrow_game = new_game\<lparr>width := 2\<rparr>"

text \<open>
  The state \<open>startGame\<close> hands to \<open>_spawnPiece\<close> on that component when the first key
  drawn is I: the board built, the counters reset, the I piece next.
\<close>

definition narrow_before_spawn :: game where
  "narrow_before_spawn = narrow_game\<lparr>gameStarted := True,
     board := replicate 20 [Null, Null], nextPiece := Some (getRandomPiece Key_I)\<rparr>"

text \<open>
  A running game whose stack reaches row 2 in column 4, with the O piece resting on it
  at the spawn position.
\<close>

definition topped_game :: game where
  "topped_game = tower_game\<lparr>board := replicate 2 empty_row @ replicate 18 tower_row,
     currentPiece := Some (getRandomPiece Key_O), currentX := 4, currentY := 0\<rparr>"

section \<open>Properties of the cell\<close>

text \<open>
  C5. For every neighbour count \<open>n\<close>, \<open>calculateNextState\<close> stores \<open>n\<close> in
  \<open>neighborCount\<close>, stores as pending state and returns whether \<open>n\<close> is in the
  survival list (live cell) or in the birth list (dead cell), and changes nothing else:
  \<open>alive\<close>, \<open>age\<close>, \<open>generation\<close> and the event log are as before. With the Conway
  rules the returned value of a dead cell is \<open>n = 3\<close> and that of a live cell is
  \<open>n = 2 \<or> n = 3\<close>, for every \<open>n\<close> (so for \<open>0..8\<close>).
\<close>

theorem calculateNextState_spec:
  "(let c' = fst (calculateNextState c n); r = snd (calculateNextState c n) in
      neighborCount c' = n \<and>
      nextState c' = Some r \<and>
      r = (if alive c then n \<in> set (survival (rules c)) else n \<in> set (birth (rules c))) \<and>
      alive c' = alive c \<and> age c' = age c \<and> generation c' = generation c \<and>
      cell_events c' = cell_events c \<and>
      c' = c\<lparr>neighborCount := n, nextState := Some r\<rparr> \<and>
      (rules c = CONWAY_RULES \<longrightarrow> r = (if alive c then n = 2 \<or> n = 3 else n = 3)))"
  by (auto simp: calculateNextState_def array_includes_def CONWAY_RULES_def Let_def)

theorem calculateNextState_spec_witness:
  "rules new_cell = CONWAY_RULES \<and>
   snd (calculateNextState new_cell 3) = True \<and>
   snd (calculateNextState new_cell 2) = False \<and>
   snd (calculateNextState (new_cell\<lparr>alive := True\<rparr>) 2) = True \<and>
   snd (calculateNextState (new_cell\<lparr>alive := True\<rparr>) 4) = False \<and>
   nextState (fst (calculateNextState new_cell 3)) = Some True \<and>
   alive (fst (calculateNextState new_cell 3)) = False"
  using calculateNextState_spec [of new_cell 3] calculateNextState_spec [of new_cell 2]
    calculateNextState_spec [of "new_cell\<lparr>alive := True\<rparr>" 2]
    calculateNextState_spec [of "new_cell\<lparr>alive := True\<rparr>" 4]
  by (simp add: new_cell_def calculateNextState_def array_includes_def CONWAY_RULES_def Let_def)

text \<open>
  C6. \<open>applyNextState\<close> with no pending state returns the component unchanged (no field
  changes, nothing is dispatched). With a pending state \<open>ns\<close> it sets \<open>alive\<close> to \<open>ns\<close>,
  sets \<open>age\<close> to 1 for a birth, to the previous age plus one for a survival and to 0
  otherwise, clears the pending state, and dispatches one state-change event exactly when
  \<open>alive\<close> changed; no other field changes.
\<close>

theorem applyNextState_spec:
  "(nextState c = None \<longrightarrow> applyNextState c = c) \<and>
   (nextState c = Some ns \<longrightarrow>
      (let c' = applyNextState c;
           a' = (if ns then (if alive c then age c + 1 else 1) else 0) in
         alive c' = ns \<and> age c' = a' \<and> nextState c' = None \<and>
         cell_events c' = cell_events c @
           (if ns \<noteq> alive c
            then [StateChange ns (alive c) (cell_x c) (cell_y c) a' (generation c) (cellId c)]
            else []) \<and>
         c' = c\<lparr>alive := ns, age := a', nextState := None, cell_events := cell_events c'\<rparr>))"
  by (auto simp: applyNextState_def dispatchStateChange_def Let_def)

theorem applyNextState_spec_witness:
  "nextState new_cell = None \<and> applyNextState new_cell = new_cell \<and>
   nextState (fst (calculateNextState new_cell 3)) = Some True \<and>
   alive (applyNextState (fst (calculateNextState new_cell 3))) = True \<and>
   age (applyNextState (fst (calculateNextState new_cell 3))) = 1 \<and>
   cell_events (applyNextState (fst (calculateNextState new_cell 3))) =
     [StateChange True False 0 0 1 0 []]"
  using applyNextState_spec [of new_cell True]
    applyNextState_spec [of "fst (calculateNextState new_cell 3)" True]
  by (simp add: new_cell_def calculateNextState_def array_includes_def CONWAY_RULES_def Let_def)

section \<open>Properties of the physics body\<close>

subsection \<open>What the boundary check leaves alone and what it changes\<close>

lemma horizontal_fields:
  "velocityY (fst (checkBounds_horizontal bd st)) = velocityY (fst st)"
  "body_y (fst (checkBounds_horizontal bd st)) = body_y (fst st)"
  "body_height (fst (checkBounds_horizontal bd st)) = body_height (fst st)"
  "restitution (fst (checkBounds_horizontal bd st)) = restitution (fst st)"
  "accelerationX (fst (checkBounds_horizontal bd st)) = accelerationX (fst st)"
  "accelerationY (fst (checkBounds_horizontal bd st)) = accelerationY (fst st)"
  "body_events (fst (checkBounds_horizontal bd st)) = body_events (fst st)"
  by (simp_all add: checkBounds_horizontal_def Let_def split: option.splits)

lemma vertical_fields:
  "velocityX (fst (checkBounds_vertical bd st)) = velocityX (fst st)"
  "body_x (fst (checkBounds_vertical bd st)) = body_x (fst st)"
  "accelerationX (fst (checkBounds_vertical bd st)) = accelerationX (fst st)"
  "accelerationY (fst (checkBounds_vertical bd st)) = accelerationY (fst st)"
  "body_events (fst (checkBounds_vertical bd st)) = body_events (fst st)"
  by (simp_all add: checkBounds_vertical_def Let_def split: option.splits)












lemma checkBounds_events:
  "body_events (checkBounds m) = body_events m \<or>
   (\<exists>edge. body_events (checkBounds m) =
        body_events m @ [BoundaryHit edge (body_x (checkBounds m)) (body_y (checkBounds m))])"
proof (cases "bounds m")
  case None
  then show ?thesis by (simp add: checkBounds_def)
next
  case (Some bd)
  then show ?thesis
    by (cases "snd (checkBounds_vertical bd (checkBounds_horizontal bd (m, None)))")
       (simp_all add: checkBounds_def checkBounds_dispatch_def vertical_fields horizontal_fields)
qed






















subsection \<open>Collision resolution\<close>

lemma distance_zero_iff:
  "sqrt (dx * dx + dy * dy) = 0 \<longleftrightarrow> dx = 0 \<and> dy = (0::real)"
  by (simp add: sum_squares_eq_zero_iff)


text \<open>
  The sign of \<open>dvn\<close>. With \<open>(dx, dy)\<close> the vector from this centre to the other and
  \<open>(vtx, vty)\<close>, \<open>(vox, voy)\<close> the velocities of this body and of the other, \<open>dvn\<close> is
  positive exactly when \<open>dx * (vox - vtx) + dy * (voy - vty)\<close>, half the rate of change
  of the squared distance of the centres, is negative.
\<close>

lemma dvn_positive_iff_closing:
  fixes dx dy :: real
  assumes "dx \<noteq> 0 \<or> dy \<noteq> 0"
  shows "(vtx - vox) * (dx / sqrt (dx * dx + dy * dy)) +
         (vty - voy) * (dy / sqrt (dx * dx + dy * dy)) > 0 \<longleftrightarrow>
         dx * (vox - vtx) + dy * (voy - vty) < 0"
proof -
  define d where "d = sqrt (dx * dx + dy * dy)"
  define r where "r = dx * (vox - vtx) + dy * (voy - vty)"
  have "dx * dx + dy * dy > 0"
    using assms by (simp add: sum_squares_gt_zero_iff)
  then have d: "d > 0" by (simp add: d_def)
  have "(vtx - vox) * (dx / d) + (vty - voy) * (dy / d) = (- r) / d"
    using d by (simp add: r_def field_simps)
  moreover have "(- r) / d > 0 \<longleftrightarrow> r < 0"
    using d by (simp add: divide_less_0_iff)
  ultimately show ?thesis
    unfolding d_def [symmetric] r_def [symmetric] by (simp only:)
qed

lemma sqrt_2500: "sqrt 2500 = 50"
  by (rule real_sqrt_unique) simp_all

text \<open>
  What \<open>resolveCollision\<close> computes, for bodies of positive mass. The centre of a body
  is its position plus half its extent. With \<open>(dx, dy)\<close> the vector from this centre to
  the other, \<open>d\<close> its length, \<open>n = (dx / d, dy / d)\<close> and \<open>dvn\<close> the velocity of this
  body minus that of the other along \<open>n\<close>, the call changes nothing when both bodies are
  static, when the centres coincide, or when \<open>dvn\<close> is positive. Otherwise, with \<open>e\<close>
  the smaller restitution and \<open>totalMass\<close> the other's mass if this body is static, this
  body's mass if the other is static, and the sum of the masses else, the impulse is
  \<open>j = -(1 + e) * dvn / totalMass\<close>; a non-static receiver loses \<open>j\<close> times the other's
  mass times \<open>n\<close> from its velocity, a non-static other body gains \<open>j\<close> times the
  receiver's mass times \<open>n\<close>, and nothing else changes.
\<close>

lemma resolveCollision_computes:
  assumes "mass this > 0" and "mass other > 0"
  shows
  "(let dx = (body_x other + body_width other / 2) - (body_x this + body_width this / 2);
        dy = (body_y other + body_height other / 2) - (body_y this + body_height this / 2);
        d = sqrt (dx * dx + dy * dy);
        nx = dx / d; ny = dy / d;
        dvn = (velocityX this - velocityX other) * nx + (velocityY this - velocityY other) * ny;
        e = min (restitution this) (restitution other);
        totalMass = (if isStatic this then mass other
                     else if isStatic other then mass this else mass this + mass other);
        j = - (1 + e) * dvn / totalMass;
        r = resolveCollision this other
    in ((isStatic this \<and> isStatic other) \<or> (dx = 0 \<and> dy = 0) \<or> dvn > 0
          \<longrightarrow> r = (this, other)) \<and>
       (\<not> (isStatic this \<and> isStatic other) \<and> \<not> (dx = 0 \<and> dy = 0) \<and> \<not> dvn > 0
          \<longrightarrow> fst r = (if isStatic this then this
                       else this\<lparr>velocityX := velocityX this - j * mass other * nx,
                                velocityY := velocityY this - j * mass other * ny\<rparr>) \<and>
              snd r = (if isStatic other then other
                       else other\<lparr>velocityX := velocityX other + j * mass this * nx,
                                 velocityY := velocityY other + j * mass this * ny\<rparr>)) \<and>
       (isStatic this \<longrightarrow> fst r = this) \<and>
       (isStatic other \<longrightarrow> snd r = other))"
  unfolding Let_def
  by (simp add: resolveCollision_def getCenter_def Let_def distance_zero_iff)

text \<open>
  C4. The claim: \<open>resolveCollision\<close> changes nothing when the two bodies are separating,
  and otherwise applies the impulse along the line of the centres. The source takes the
  relative velocity as this body's minus the other's and returns when its component along
  the normal from this centre to the other is positive, under the comment "Don't resolve
  if velocities are separating"; by \<open>dvn_positive_iff_closing\<close> that is the case in which
  the centres are closing. For the box moving towards the second body, where the product
  of the centre offset and the velocity of the other relative to this is negative, the
  call changes neither velocity. For the same box moving away, where that product is
  positive, the call applies the impulse, and the bodies part faster than before.
\<close>

theorem resolveCollision_skips_closing_pair:
  "getCenter ball_c = (25, 25) \<and> getCenter ball_a = (25, 25) \<and> getCenter ball_b = (55, 65) \<and>
   (fst (getCenter ball_b) - fst (getCenter ball_c)) * (velocityX ball_b - velocityX ball_c) +
   (snd (getCenter ball_b) - snd (getCenter ball_c)) * (velocityY ball_b - velocityY ball_c) =
     - 150 \<and>
   resolveCollision ball_c ball_b = (ball_c, ball_b) \<and>
   (fst (getCenter ball_b) - fst (getCenter ball_a)) * (velocityX ball_b - velocityX ball_a) +
   (snd (getCenter ball_b) - snd (getCenter ball_a)) * (velocityY ball_b - velocityY ball_a) =
     150 \<and>
   resolveCollision ball_a ball_b =
     (ball_a\<lparr>velocityX := - (179 / 25), velocityY := - (72 / 25)\<rparr>,
      ball_b\<lparr>velocityX := 27 / 25, velocityY := 36 / 25\<rparr>)"
  by (simp add: ball_a_def ball_b_def ball_c_def new_body_def resolveCollision_def
      getCenter_def Let_def sqrt_2500)

text \<open>
  In exact arithmetic the two velocity changes cancel when weighted by the masses: over
  the reals, for two non-static bodies of positive mass, mass times velocity of this body
  plus mass times velocity of the other is the same before and after the call, in both
  components. The equalities rest on the field laws of the reals; they say nothing of
  the rounded sums the source computes in double precision.
\<close>

lemma resolveCollision_momentum_exact:
  assumes "\<not> isStatic this" and "\<not> isStatic other" and "mass this > 0" and "mass other > 0"
  shows "(let r = resolveCollision this other
          in mass (fst r) = mass this \<and> mass (snd r) = mass other \<and>
             mass this * velocityX (fst r) + mass other * velocityX (snd r) =
               mass this * velocityX this + mass other * velocityX other \<and>
             mass this * velocityY (fst r) + mass other * velocityY (snd r) =
               mass this * velocityY this + mass other * velocityY other)"
  using assms
  by (simp add: resolveCollision_def Let_def algebra_simps)

section \<open>Properties of the Tetris engine\<close>

subsection \<open>Validity of a position\<close>

lemma check_cell_cong:
  "width g' = width g \<Longrightarrow> height g' = height g \<Longrightarrow> board g' = board g \<Longrightarrow>
   check_cell g' x y = check_cell g x y"
  by (simp add: check_cell_def)

lemma valid_cells_cong:
  "width g' = width g \<Longrightarrow> height g' = height g \<Longrightarrow> board g' = board g \<Longrightarrow>
   valid_cells g' x y cs = valid_cells g x y cs"
  by (induction cs) (auto simp: check_cell_cong [of g' g] split: sum.splits bool.splits)

lemma isValidPosition_cong:
  "width g' = width g \<Longrightarrow> height g' = height g \<Longrightarrow> board g' = board g \<Longrightarrow>
   isValidPosition g' sh x y = isValidPosition g sh x y"
  using valid_cells_cong [of g' g] by (simp add: isValidPosition_def)

lemma check_cell_no_error:
  "board_has_rows g \<Longrightarrow> check_cell g x y \<noteq> Inl e"
  by (simp add: check_cell_def board_has_rows_def row_at_def)

lemma valid_cells_no_error:
  "board_has_rows g \<Longrightarrow> valid_cells g x y cs \<noteq> Inl e"
proof (induction cs)
  case Nil
  then show ?case by simp
next
  case (Cons c cs)
  obtain row col where c: "c = (row, col)" by (cases c)
  show ?case
    using Cons check_cell_no_error [of g "x + int col" "y + int row"]
    by (simp add: c split: sum.splits bool.splits)
qed

lemma isValidPosition_no_error:
  "board_has_rows g \<Longrightarrow> isValidPosition g sh x y \<noteq> Inl e"
  by (simp add: isValidPosition_def valid_cells_no_error)

lemma isValidPosition_total:
  "board_has_rows g \<Longrightarrow>
   isValidPosition g sh x y = Inr True \<or> isValidPosition g sh x y = Inr False"
  using isValidPosition_no_error [of g sh x y]
  by (cases "isValidPosition g sh x y") auto


subsection \<open>Rotation\<close>

lemma try_kicks_find:
  assumes "board_has_rows g"
  shows "try_kicks g p rot ks =
     Inr (case find (\<lambda>k. isValidPosition g rot (currentX g + k) (currentY g) = Inr True) ks of
            None \<Rightarrow> g
          | Some k \<Rightarrow> g\<lparr>currentPiece := Some (p\<lparr>shape := rot\<rparr>), currentX := currentX g + k\<rparr>)"
proof (induction ks)
  case Nil
  then show ?case by simp
next
  case (Cons k ks)
  from assms isValidPosition_total [of g rot "currentX g + k" "currentY g"]
  show ?case using Cons by auto
qed

lemma rotateMatrix_nonempty:
  "m \<noteq> [] \<Longrightarrow> rotateMatrix m =
     Inr (map (\<lambda>col. map (\<lambda>k. elem_at (m ! (length m - 1 - k)) (int col)) [0..<length m])
              [0..<length (hd m)])"
  by (cases m) (simp_all add: rotateMatrix_def)

lemma rotateMatrix_cells:
  assumes "m \<noteq> []" and "\<forall>r \<in> set m. length r = length (hd m)"
  shows "\<exists>rot. rotateMatrix m = Inr rot \<and> length rot = length (hd m) \<and>
     (\<forall>i < length (hd m). length (rot ! i) = length m \<and>
        (\<forall>j < length m. rot ! i ! j = m ! (length m - 1 - j) ! i))"
proof -
  have len: "length (m ! j) = length (hd m)" if "j < length m" for j
    using assms(2) that by simp
  have el: "elem_at (m ! (length m - Suc j)) (int i) = m ! (length m - Suc j) ! i"
    if "j < length m" and "i < length (hd m)" for i j
  proof -
    have "length m - Suc j < length m" using that(1) by arith
    then have "length (m ! (length m - Suc j)) = length (hd m)" by (rule len)
    then show ?thesis using that(2) by (simp add: elem_at_def)
  qed
  show ?thesis
    unfolding rotateMatrix_nonempty [OF assms(1)]
    by (intro exI conjI allI impI, rule refl) (simp_all add: el)
qed

text \<open>
  C8. With a current piece whose shape has a row, on a board that has a row for every
  index below \<open>height\<close>, \<open>_rotate\<close> returns normally; \<open>rot\<close>, the rotated shape, holds
  at row \<open>i\<close>, column \<open>j\<close> the cell of column \<open>i\<close> of the \<open>j\<close>-th row from the bottom of
  the (rectangular) shape, a quarter turn clockwise. The state after the call is decided
  by the first of the x-offsets 0, -1, 1, -2, 2, in this order, at which \<open>rot\<close> is valid
  at the current row: the piece gets the shape \<open>rot\<close> and \<open>currentX\<close> moves by that
  offset (by nothing for the offset 0), and no other field changes; when \<open>rot\<close> is valid
  at none of the five, the state after the call is the state before it.
\<close>

theorem rotate_wall_kick:
  assumes "currentPiece g = Some p" and "shape p \<noteq> []" and "board_has_rows g"
  shows "\<exists>rot. rotateMatrix (shape p) = Inr rot \<and>
     ((\<forall>r \<in> set (shape p). length r = length (hd (shape p))) \<longrightarrow>
        length rot = length (hd (shape p)) \<and>
        (\<forall>i < length (hd (shape p)). length (rot ! i) = length (shape p) \<and>
           (\<forall>j < length (shape p).
              rot ! i ! j = shape p ! (length (shape p) - 1 - j) ! i))) \<and>
     rotate g =
       Inr (case find (\<lambda>k. isValidPosition g rot (currentX g + k) (currentY g) = Inr True)
                   [0, - 1, 1, - 2, 2] of
              None \<Rightarrow> g
            | Some k \<Rightarrow> g\<lparr>currentPiece := Some (p\<lparr>shape := rot\<rparr>),
                          currentX := currentX g + k\<rparr>)"
proof -
  obtain first rest where m: "shape p = first # rest" using assms(2) by (cases "shape p") auto
  then obtain rot where rot: "rotateMatrix (shape p) = Inr rot"
    by (simp add: rotateMatrix_def)
  have cells: "(\<forall>r \<in> set (shape p). length r = length (hd (shape p))) \<longrightarrow>
        length rot = length (hd (shape p)) \<and>
        (\<forall>i < length (hd (shape p)). length (rot ! i) = length (shape p) \<and>
           (\<forall>j < length (shape p).
              rot ! i ! j = shape p ! (length (shape p) - 1 - j) ! i))"
    using rotateMatrix_cells [OF assms(2)] rot by auto
  have r: "rotate g =
       Inr (case find (\<lambda>k. isValidPosition g rot (currentX g + k) (currentY g) = Inr True)
                   [0, - 1, 1, - 2, 2] of
              None \<Rightarrow> g
            | Some k \<Rightarrow> g\<lparr>currentPiece := Some (p\<lparr>shape := rot\<rparr>),
                          currentX := currentX g + k\<rparr>)"
  proof (cases "isValidPosition g rot (currentX g) (currentY g) = Inr True")
    case True
    then show ?thesis by (simp add: rotate_def assms(1) rot)
  next
    case False
    with isValidPosition_total [OF assms(3), of rot "currentX g" "currentY g"]
    have f: "isValidPosition g rot (currentX g) (currentY g) = Inr False" by simp
    show ?thesis
      using False
      by (simp add: rotate_def assms(1) rot f try_kicks_find [OF assms(3)] del: try_kicks.simps)
  qed
  from rot cells r show ?thesis by blast
qed


theorem rotate_wall_kick_witness:
  "currentPiece kick_game = Some I_upright \<and> shape I_upright \<noteq> [] \<and>
   board_has_rows kick_game \<and>
   list_all (\<lambda>r. length r = length (hd (shape I_upright))) (shape I_upright) \<and>
   rotateMatrix (shape I_upright) = Inr I_flat \<and>
   isValidPosition kick_game I_flat (- 2) 5 = Inr False \<and>
   isValidPosition kick_game I_flat (- 3) 5 = Inr False \<and>
   isValidPosition kick_game I_flat (- 1) 5 = Inr False \<and>
   isValidPosition kick_game I_flat (- 4) 5 = Inr False \<and>
   isValidPosition kick_game I_flat 0 5 = Inr True \<and>
   rotate kick_game =
     Inr (kick_game\<lparr>currentPiece := Some (I_upright\<lparr>shape := I_flat\<rparr>), currentX := 0\<rparr>) \<and>
   currentPiece blocked_game = Some I_upright \<and> board_has_rows blocked_game \<and>
   rotate blocked_game = Inr blocked_game"
proof -
  have a: "currentPiece kick_game = Some I_upright" "currentPiece blocked_game = Some I_upright"
    by (simp_all add: kick_game_def blocked_game_def)
  have b: "shape I_upright \<noteq> []"
    by (simp add: I_upright_def cells_def)
  have c: "board_has_rows kick_game" "board_has_rows blocked_game"
    by code_simp+
  have d: "list_all (\<lambda>r. length r = length (hd (shape I_upright))) (shape I_upright)"
    by (simp add: I_upright_def cells_def)
  have e: "rotateMatrix (shape I_upright) = Inr I_flat"
    by code_simp
  have v: "isValidPosition kick_game I_flat (- 2) 5 = Inr False"
    "isValidPosition kick_game I_flat (- 3) 5 = Inr False"
    "isValidPosition kick_game I_flat (- 1) 5 = Inr False"
    "isValidPosition kick_game I_flat (- 4) 5 = Inr False"
    "isValidPosition kick_game I_flat 0 5 = Inr True"
    by code_simp+
  have r1: "rotate kick_game =
     Inr (kick_game\<lparr>currentPiece := Some (I_upright\<lparr>shape := I_flat\<rparr>), currentX := 0\<rparr>)"
    by code_simp
  have r2: "rotate blocked_game = Inr blocked_game"
    by code_simp
  show ?thesis
    using rotate_wall_kick [OF a(1) b c(1)] rotate_wall_kick [OF a(2) b c(2)]
      a b c d e v r1 r2
    by blast
qed

subsection \<open>Spawning and the end of the game\<close>

lemma stopGameLoop_fields:
  "gameLoop (stopGameLoop g) = None"
  "events (stopGameLoop g) = events g"
  "score (stopGameLoop g) = score g"
  "level (stopGameLoop g) = level g"
  "lines (stopGameLoop g) = lines g"
  "board (stopGameLoop g) = board g"
  "width (stopGameLoop g) = width g"
  "height (stopGameLoop g) = height g"
  "gameOver (stopGameLoop g) = gameOver g"
  "paused (stopGameLoop g) = paused g"
  "currentPiece (stopGameLoop g) = currentPiece g"
  "currentX (stopGameLoop g) = currentX g"
  "currentY (stopGameLoop g) = currentY g"
  "nextPiece (stopGameLoop g) = nextPiece g"
  by (simp_all add: stopGameLoop_def)

lemma endGame_fields:
  "gameOver (endGame g)"
  "gameLoop (endGame g) = None"
  "events (endGame g) = events g @ [GameOver (score g) (level g) (lines g)]"
  "score (endGame g) = score g"
  "level (endGame g) = level g"
  "lines (endGame g) = lines g"
  "board (endGame g) = board g"
  "currentPiece (endGame g) = currentPiece g"
  "currentX (endGame g) = currentX g"
  "currentY (endGame g) = currentY g"
  "nextPiece (endGame g) = nextPiece g"
  by (simp_all add: endGame_def Let_def stopGameLoop_fields)

lemma tick_gameOver: "gameOver g \<Longrightarrow> tick g key = Inr g"
  by (simp add: tick_def)

lemma ticks_gameOver: "gameOver g \<Longrightarrow> ticks g keys = Inr g"
  by (induction keys) (simp_all add: tick_gameOver)

text \<open>
  What \<open>_spawnPiece\<close>, \<open>_endGame\<close> and \<open>_tick\<close> do. When the piece promoted from
  \<open>nextPiece\<close>, centred horizontally at row 0, is not at a valid position,
  \<open>_spawnPiece\<close> returns with \<open>gameOver\<close> set and the timer cleared, and has dispatched
  one game-over event carrying the score, the level and the number of lines; score,
  level, lines and board are as before. From that state every run of timer ticks returns
  the state unchanged.
\<close>

theorem spawn_failure_ends_game:
  assumes "nextPiece g = Some p" and "shape p \<noteq> []"
    and "isValidPosition g (shape p) ((width g - int (length (hd (shape p)))) div 2) 0 = Inr False"
  shows "\<exists>g'. spawnPiece g key = Inr g' \<and>
     gameOver g' \<and> gameLoop g' = None \<and>
     events g' = events g @ [GameOver (score g) (level g) (lines g)] \<and>
     currentPiece g' = Some p \<and> nextPiece g' = Some (getRandomPiece key) \<and>
     currentX g' = (width g - int (length (hd (shape p)))) div 2 \<and> currentY g' = 0 \<and>
     score g' = score g \<and> level g' = level g \<and> lines g' = lines g \<and> board g' = board g \<and>
     (\<forall>keys. ticks g' keys = Inr g')"
proof -
  obtain first rest where sh: "shape p = first # rest"
    using assms(2) by (cases "shape p") auto
  define g1 where "g1 = g\<lparr>currentPiece := Some p, nextPiece := Some (getRandomPiece key),
      currentX := (width g - int (length first)) div 2, currentY := 0\<rparr>"
  have v: "isValidPosition g1 (shape p) (currentX g1) (currentY g1) = Inr False"
    using assms(3) isValidPosition_cong [of g1 g "shape p" "currentX g1" "currentY g1"]
    by (simp add: g1_def sh)
  have s: "spawnPiece g key = Inr (endGame g1)"
    using v by (simp add: spawnPiece_def assms(1) sh g1_def Let_def)
  have t: "\<forall>keys. ticks (endGame g1) keys = Inr (endGame g1)"
    by (simp add: ticks_gameOver endGame_fields)
  show ?thesis
    unfolding s using t by (simp add: endGame_fields) (simp add: g1_def sh)
qed

theorem spawn_failure_ends_game_witness:
  "nextPiece tower_game = Some (getRandomPiece Key_O) \<and>
   shape (getRandomPiece Key_O) \<noteq> [] \<and>
   isValidPosition tower_game (shape (getRandomPiece Key_O)) 4 0 = Inr False \<and>
   spawnPiece tower_game Key_T =
     Inr (tower_game\<lparr>currentPiece := Some (getRandomPiece Key_O),
            nextPiece := Some (getRandomPiece Key_T), currentX := 4, currentY := 0,
            gameOver := True, gameLoop := None,
            events := [GameOver (Num 1200) 2 13]\<rparr>)"
proof -
  have a: "nextPiece tower_game = Some (getRandomPiece Key_O)"
    by (simp add: tower_game_def started_game_def)
  have b: "shape (getRandomPiece Key_O) \<noteq> []"
    by (simp add: getRandomPiece_def cells_def)
  have x: "(width tower_game - int (length (hd (shape (getRandomPiece Key_O))))) div 2 = 4"
    by code_simp
  have c: "isValidPosition tower_game (shape (getRandomPiece Key_O)) 4 0 = Inr False"
    by code_simp
  have s: "spawnPiece tower_game Key_T =
     Inr (tower_game\<lparr>currentPiece := Some (getRandomPiece Key_O),
            nextPiece := Some (getRandomPiece Key_T), currentX := 4, currentY := 0,
            gameOver := True, gameLoop := None,
            events := [GameOver (Num 1200) 2 13]\<rparr>)"
    by code_simp
  show ?thesis
    using spawn_failure_ends_game [OF a b, of Key_T] a b c x s by auto
qed

text \<open>
  C9. The claim: whenever a freshly spawned piece is not at a valid position, the engine
  sets \<open>gameOver\<close>, stops the tick loop and emits the game-over event, and no later
  tick changes the state. When the spawn that fails is the one of a timer tick, the
  engine is left so: in the running game whose O piece rests on a stack at the spawn
  position, the tick locks the piece, the next piece does not fit, and the state
  returned has \<open>gameOver\<close> set and no timer. When it is the first spawn of
  \<open>startGame\<close>, on the component of width 2 with the I piece drawn, \<open>_spawnPiece\<close>
  likewise returns with \<open>gameOver\<close> set and the timer cleared, but \<open>startGame\<close> goes
  on to \<open>_startGameLoop\<close> and to the game-start event: it returns with \<open>gameOver\<close>
  set, a timer of period 1000 running, and the events game-over, game-start. The ticks of
  that timer return the state unchanged.
\<close>

theorem startGame_failed_spawn_restarts_timer:
  "isValidPosition narrow_before_spawn (shape (getRandomPiece Key_I)) (- 1) 0 = Inr False \<and>
   spawnPiece narrow_before_spawn Key_T =
     Inr (narrow_before_spawn\<lparr>gameOver := True, currentPiece := Some (getRandomPiece Key_I),
            currentX := - 1, nextPiece := Some (getRandomPiece Key_T), gameLoop := None,
            events := [GameOver (Num 0) 1 0]\<rparr>) \<and>
   startGame narrow_game Key_I Key_T =
     Inr (narrow_before_spawn\<lparr>gameOver := True, currentPiece := Some (getRandomPiece Key_I),
            currentX := - 1, nextPiece := Some (getRandomPiece Key_T), gameLoop := Some 1000,
            events := [GameOver (Num 0) 1 0, GameStart 1 1000]\<rparr>) \<and>
   (case startGame narrow_game Key_I Key_T of
      Inl e \<Rightarrow> False
    | Inr g' \<Rightarrow> gameOver g' \<and> gameLoop g' = Some 1000 \<and>
        ticks g' [Key_O, Key_S, Key_Z] = Inr g') \<and>
   gameLoop topped_game = Some 920 \<and>
   (case tick topped_game Key_T of
      Inl e \<Rightarrow> False
    | Inr g' \<Rightarrow> gameOver g' \<and> gameLoop g' = None \<and>
        events g' = [PieceLock ''O'' 4 0, GameOver (Num 1200) 2 13])"
  by code_simp

subsection \<open>The hard-drop loop\<close>



subsection \<open>Score and events of the line clear\<close>

lemma startGameLoop_fields:
  "events (startGameLoop g) = events g"
  "score (startGameLoop g) = score g"
  "level (startGameLoop g) = level g"
  "lines (startGameLoop g) = lines g"
  "board (startGameLoop g) = board g"
  by (simp_all add: startGameLoop_def stopGameLoop_fields)

lemma levelUp_fields:
  "score (levelUp g) = score g"
  "events (levelUp g) = events g @ [LevelUp (level g + 1) (getCurrentSpeed (levelUp g)) (lines g)]"
  "board (levelUp g) = board g"
  by (simp_all add: levelUp_def Let_def startGameLoop_fields getCurrentSpeed_def
      startGameLoop_def stopGameLoop_def)

lemma addScore_fields:
  "score (addScore g points) = jsadd (score g) points"
  "events (addScore g points) = events g @ [ScoreUpdate (jsadd (score g) points) (score g) points]"
  "level (addScore g points) = level g"
  "lines (addScore g points) = lines g"
  "board (addScore g points) = board g"
  "currentPiece (addScore g points) = currentPiece g"
  "currentX (addScore g points) = currentX g"
  "currentY (addScore g points) = currentY g"
  by (simp_all add: addScore_def)



lemma collect_full_filter:
  "\<forall>y \<in> set ys. y < length b \<Longrightarrow>
   collect_full b ys = Inr (filter (\<lambda>y. row_full (b ! y)) ys)"
  by (induction ys) (simp_all add: row_at_def)




subsection \<open>Events of locking, clearing and spawning\<close>






subsection \<open>Scoring\<close>








subsection \<open>Line clearing\<close>

text \<open>
  The second loop of \<open>_clearLines\<close> keeps the number of rows, and a single full row is
  removed as intended: the rows above it move down by one under a new empty row.
\<close>

lemma remove_lines_length:
  "\<forall>y \<in> set ls. y < length b \<Longrightarrow> remove_lines w b ls = Inr b' \<Longrightarrow> length b' = length b"
proof (induction ls arbitrary: b)
  case Nil
  then show ?case by simp
next
  case (Cons y ls)
  from Cons.prems have y: "y < length b" and w: "\<not> w < 0" by (auto split: if_splits)
  let ?b1 = "replicate (nat w) Null # splice1 b y"
  have len: "length ?b1 = length b" using y by (simp add: splice1_def)
  from Cons.prems w have r: "remove_lines w ?b1 ls = Inr b'" by simp
  have "\<forall>z \<in> set ls. z < length ?b1" using Cons.prems(1) len by simp
  from Cons.IH [OF this r] len show ?case by simp
qed

lemma filter_single:
  assumes "\<forall>j < n. P j \<longleftrightarrow> j = i"
  shows "filter P [0..<n] = (if i < n then [i] else [])"
  using assms
proof (induction n)
  case 0
  then show ?case by simp
next
  case (Suc n)
  then have IH: "filter P [0..<n] = (if i < n then [i] else [])" by simp
  from Suc.prems have "P n \<longleftrightarrow> n = i" by simp
  with IH show ?case by auto
qed

lemma clearLines_single_full_row:
  assumes "length (board g) = nat (height g)" and "0 \<le> width g"
    and "i < length (board g)"
    and "\<forall>j < length (board g). row_full (board g ! j) \<longleftrightarrow> j = i"
  shows "\<exists>g'. clearLines g = Inr g' \<and>
     board g' = replicate (nat (width g)) Null # (take i (board g) @ drop (Suc i) (board g))"
proof -
  have f: "filter (\<lambda>y. row_full (board g ! y)) [0..<length (board g)] = [i]"
    using filter_single [of "length (board g)" "\<lambda>y. row_full (board g ! y)" i] assms(3,4)
    by simp
  have "filter (\<lambda>y. row_full (board g ! y)) (rev [0..<length (board g)]) = rev [i]"
    unfolding rev_filter [symmetric] f ..
  then have ls: "filter (\<lambda>y. row_full (board g ! y)) (rev [0..<nat (height g)]) = [i]"
    by (simp add: assms(1))
  have c: "collect_full (board g) (rev [0..<nat (height g)]) = Inr [i]"
    using collect_full_filter [of "rev [0..<nat (height g)]" "board g"] ls
    by (simp add: assms(1))
  have "clearLines g =
      Inr (after_clear (g\<lparr>board := replicate (nat (width g)) Null # splice1 (board g) i\<rparr>) 1)"
    using assms(2) by (simp add: clearLines_def c)
  moreover have "board (after_clear g0 m) = board g0" for g0 m
    by (simp add: after_clear_def Let_def levelUp_fields addScore_fields)
  ultimately show ?thesis by (simp add: splice1_def)
qed

text \<open>
  C1. The claim: after \<open>_clearLines\<close> every row that was full is gone, as many empty
  rows have been added on top, and no full row is left, for one to four full rows. The
  second loop removes by the indices collected before any removal, bottom row first, and
  each removal is followed by an insertion on top that moves the rows still to be removed
  down by one. On the default board with rows 18 and 19 full and one block in row 17, the
  call awards the 300 points of a double and counts two lines, but the board it leaves
  has lost row 19 and the unfilled row 17, and still holds the full row 18 as its bottom
  row.
\<close>

theorem clearLines_leaves_full_row:
  "clearLines two_full_game =
     Inr (two_full_game\<lparr>board := replicate 19 empty_row @ [full_row],
            score := Num 300, lines := 2,
            events := [ScoreUpdate (Num 300) (Num 0) (Num 300), LineClear 2 2 (Num 300)]\<rparr>) \<and>
   row_full full_row \<and> \<not> row_full partial_row"
  by code_simp

end
